theory Spec2Isabelle
  imports Main "HOL-Library.List_Lexorder" "HOL-Library.Multiset"
begin

section \<open>Strings\<close>

text \<open>
  A Python \<open>str\<close> is a sequence of Unicode code points; it is modelled as a list of
  natural numbers, one per code point, so that \<open>len\<close> is \<open>length\<close>, slicing is
  \<open>take\<close>/\<open>drop\<close>, and the comparison of two strings (code point by code point,
  a proper prefix first) is the lexicographic order of \<open>HOL-Library.List_Lexorder\<close>.
  A literal of the source is written \<open>py ''...''\<close>.
\<close>

type_synonym str = "nat list"

abbreviation py :: "string \<Rightarrow> str" where
  "py s \<equiv> map of_char s"

definition LF :: nat where "LF = 10"
definition CR :: nat where "CR = 13"
definition SLASH :: nat where "SLASH = 47"
definition DOT :: nat where "DOT = 46"

text \<open>\<open>str.isspace\<close> on one code point: the Unicode white space characters.\<close>

definition is_space :: "nat \<Rightarrow> bool" where
  "is_space c \<longleftrightarrow>
     (9 \<le> c \<and> c \<le> 13) \<or> (28 \<le> c \<and> c \<le> 32) \<or> c = 133 \<or> c = 160 \<or> c = 5760 \<or>
     (8192 \<le> c \<and> c \<le> 8202) \<or> c = 8232 \<or> c = 8233 \<or> c = 8239 \<or> c = 8287 \<or> c = 12288"

text \<open>\<open>s.strip()\<close>: leading and trailing white space removed.\<close>

definition strip :: "str \<Rightarrow> str" where
  "strip s = rev (dropWhile is_space (rev (dropWhile is_space s)))"

text \<open>
  \<open>s.lower()\<close>, on the ASCII letters. (Python also maps the cased letters beyond
  ASCII; the extensions and style names the program compares with are ASCII.)
\<close>

definition lower_char :: "nat \<Rightarrow> nat" where
  "lower_char c = (if 65 \<le> c \<and> c \<le> 90 then c + 32 else c)"

definition lower :: "str \<Rightarrow> str" where
  "lower s = map lower_char s"

definition startswith :: "str \<Rightarrow> str \<Rightarrow> bool" where
  "startswith s p \<longleftrightarrow> take (length p) s = p"

text \<open>\<open>sep.join(xs)\<close>.\<close>

fun join :: "str \<Rightarrow> str list \<Rightarrow> str" where
  "join sep [] = []"
| "join sep [x] = x"
| "join sep (x # y # ys) = x @ sep @ join sep (y # ys)"

text \<open>
  \<open>f.readlines()\<close> on a file opened in text mode, applied to the decoded text of the
  file: the text is cut after every line feed, each line keeps its line feed, and a
  last line without one is kept as it is. \<open>cur\<close> is the line being read.
\<close>

fun readlines_from :: "str \<Rightarrow> str \<Rightarrow> str list" where
  "readlines_from cur [] = (if cur = [] then [] else [cur])"
| "readlines_from cur (c # cs) =
     (if c = LF then (cur @ [c]) # readlines_from [] cs
      else readlines_from (cur @ [c]) cs)"

definition readlines :: "str \<Rightarrow> str list" where
  "readlines s = readlines_from [] s"

text \<open>
  \<open>s.splitlines()\<close>: the text is cut at every line boundary (line feed, carriage
  return, carriage return followed by line feed, vertical tab, form feed, the
  separators U+001C to U+001E, next line U+0085, U+2028, U+2029); the boundaries are
  dropped, and no empty last line is produced.
\<close>

definition is_linebreak :: "nat \<Rightarrow> bool" where
  "is_linebreak c \<longleftrightarrow>
     (10 \<le> c \<and> c \<le> 13) \<or> (28 \<le> c \<and> c \<le> 30) \<or> c = 133 \<or> c = 8232 \<or> c = 8233"

fun splitlines_from :: "str \<Rightarrow> str \<Rightarrow> str list" where
  "splitlines_from cur [] = (if cur = [] then [] else [cur])"
| "splitlines_from cur [c] = (if is_linebreak c then [cur] else [cur @ [c]])"
| "splitlines_from cur (c # d # cs) =
     (if c = CR \<and> d = LF then cur # splitlines_from [] cs
      else if is_linebreak c then cur # splitlines_from [] (d # cs)
      else splitlines_from (cur @ [c]) (d # cs))"

definition splitlines :: "str \<Rightarrow> str list" where
  "splitlines s = splitlines_from [] s"

section \<open>Paths\<close>

text \<open>\<open>s.split('/')\<close>: the pieces between the separators, empty pieces included.\<close>

fun split_from :: "nat \<Rightarrow> str \<Rightarrow> str \<Rightarrow> str list" where
  "split_from sep cur [] = [cur]"
| "split_from sep cur (c # cs) =
     (if c = sep then cur # split_from sep [] cs else split_from sep (cur @ [c]) cs)"

text \<open>
  The parts of a POSIX path below its anchor: \<open>pathlib\<close> drops the empty components
  and the components \<open>.\<close>. \<open>Path(p).name\<close> is the last part, or the empty string.
\<close>

definition path_parts :: "str \<Rightarrow> str list" where
  "path_parts p = [s \<leftarrow> split_from SLASH [] p. s \<noteq> [] \<and> s \<noteq> [DOT]]"

definition path_name :: "str \<Rightarrow> str" where
  "path_name p = (case rev (path_parts p) of [] \<Rightarrow> [] | n # _ \<Rightarrow> n)"

text \<open>
  \<open>Path(p).suffix\<close>: with \<open>i = name.rfind('.')\<close>, the name from \<open>i\<close> on when
  \<open>0 < i < len(name) - 1\<close>, and the empty string otherwise.
\<close>

definition path_suffix :: "str \<Rightarrow> str" where
  "path_suffix p =
     (let name = path_name p in
      if DOT \<notin> set name then []
      else
        let i = length name - length (takeWhile (\<lambda>c. c \<noteq> DOT) (rev name)) - 1 in
        if 0 < i \<and> i < length name - 1 then drop i name else [])"

text \<open>
  \<open>os.path.join(a, b)\<close> for a relative \<open>b\<close>. For a directory path \<open>a\<close> that
  is already normalised, as the resolved root of the scan and every path below it are,
  this is also \<open>str(Path(a) / b)\<close>.
\<close>

definition path_join :: "str \<Rightarrow> str \<Rightarrow> str" where
  "path_join a b = (if a = [] \<or> last a = SLASH then a @ b else a @ [SLASH] @ b)"

section \<open>The file system\<close>

text \<open>
  What the scan sees of the file system is a tree: a regular file has a name; a
  directory has a name and a listing, which is \<open>None\<close> when listing the directory
  raises \<open>PermissionError\<close> and otherwise the entries in the order in which the
  operating system enumerates them.
\<close>

datatype node = File str | Dir str "node list option"

fun node_name :: "node \<Rightarrow> str" where
  "node_name (File n) = n"
| "node_name (Dir n _) = n"

fun is_dir :: "node \<Rightarrow> bool" where
  "is_dir (File _) = False"
| "is_dir (Dir _ _) = True"

fun is_file :: "node \<Rightarrow> bool" where
  "is_file (File _) = True"
| "is_file (Dir _ _) = False"

definition EXCLUDE_FOLDERS :: "str list" where
  "EXCLUDE_FOLDERS =
     [py ''to_exclude'', py ''.git'', py ''__pycache__'', py ''node_modules'',
      py ''backups'', py ''temp'', py ''libs'']"

section \<open>The tree renderer\<close>

definition branch :: str where
  "branch = [0x251C, 0x2500, 0x2500, 0x20]"

definition last_branch :: str where
  "last_branch = [0x2514, 0x2500, 0x2500, 0x20]"

definition vertical :: str where
  "vertical = [0x2502, 0x20, 0x20, 0x20]"

text \<open>
  The items of one directory, as \<open>_tree_generator\<close> computes them: the directories
  that are not excluded, followed by the files, and the whole list sorted. The items
  are paths with the same parent, so \<open>sorted\<close> compares their names; it is stable.
  The exclusion list is a parameter here, and \<open>EXCLUDE_FOLDERS\<close> is its value in the
  program.
\<close>

definition sorted_items :: "str list \<Rightarrow> node list \<Rightarrow> node list" where
  "sorted_items ex entries =
     sort_key node_name
       ([item \<leftarrow> entries. is_dir item \<and> node_name item \<notin> set ex] @
        [item \<leftarrow> entries. is_file item])"

lemma set_sorted_items: "set (sorted_items ex entries) \<subseteq> set entries"
  by (auto simp: sorted_items_def)

lemma size_sub_less:
  "Dir n sub \<in> set entries \<Longrightarrow> size_option (size_list size) sub < Suc (size_list size entries)"
proof -
  assume a: "Dir n sub \<in> set entries"
  have "size (Dir n sub) \<le> size_list size entries"
    using a by (simp add: size_list_estimation')
  then show ?thesis by simp
qed

text \<open>
  \<open>_tree_generator(directory, file_out, prefix)\<close>; the result is the list of the
  strings written to \<open>file_out\<close>, one for each call of \<open>write\<close>.
\<close>

function tree_generator :: "str list \<Rightarrow> node list option \<Rightarrow> str \<Rightarrow> str list" where
  "tree_generator ex None prefix =
     [prefix @ last_branch @ py ''[Error: Permission Denied]'' @ [LF]]"
| "tree_generator ex (Some entries) prefix =
     (let items = sorted_items ex entries in
      concat (map (\<lambda>(i, item).
          (let connector = (if i = length items - 1 then last_branch else branch) in
           case item of
             Dir name sub \<Rightarrow>
               (prefix @ connector @ name @ py ''/'' @ [LF]) #
               tree_generator ex sub
                 (prefix @ (if i = length items - 1 then py ''    '' else vertical))
           | File name \<Rightarrow> [prefix @ connector @ name @ [LF]]))
        (enumerate 0 items)))"
  by pat_completeness auto
termination
proof (relation "measure (\<lambda>(ex, listing, prefix). size_option (size_list size) listing)", goal_cases)
  case 1
  show ?case by simp
next
  case (2 ex entries prefix items ia i item connector name sub)
  then have "i < length (sorted_items ex entries) \<and> sorted_items ex entries ! i = Dir name sub"
    by (auto simp: in_set_enumerate_eq)
  then have "Dir name sub \<in> set (sorted_items ex entries)"
    by (metis nth_mem)
  then have "Dir name sub \<in> set entries"
    using set_sorted_items by blast
  then show ?case
    using size_sub_less by simp
qed

text \<open>\<open>generate_directory_tree\<close>: the header, the root's name and the tree.\<close>

definition generate_directory_tree :: "str list \<Rightarrow> str \<Rightarrow> node list option \<Rightarrow> str list" where
  "generate_directory_tree ex folder_path_str listing =
     [py ''Directory Tree for: '' @ folder_path_str @ [LF],
      replicate 50 (of_char CHR ''='') @ [LF],
      path_name folder_path_str @ py ''/'' @ [LF]] @
     tree_generator ex listing [] @
     [replicate 50 (of_char CHR ''='') @ [LF, LF]]"

section \<open>The file collector\<close>

text \<open>
  The loop over \<open>os.walk(folder_path)\<close> in \<open>scan_folder_and_collect_files\<close>, top
  down: for the directory at \<open>root\<close>, the body prunes the excluded names from
  \<open>dirs\<close> and appends the path of every file; the walk then descends into the
  directories left in \<open>dirs\<close>. A directory that cannot be listed is skipped by
  \<open>os.walk\<close> (its \<open>onerror\<close> is \<open>None\<close>). The result is \<open>all_files_paths\<close>
  before it is sorted.
\<close>

function walk_collect :: "str list \<Rightarrow> str \<Rightarrow> node list option \<Rightarrow> str list" where
  "walk_collect ex root None = []"
| "walk_collect ex root (Some entries) =
     map (\<lambda>item. path_join root (node_name item)) [item \<leftarrow> entries. is_file item] @
     concat (map (\<lambda>d. case d of
                         Dir name sub \<Rightarrow> walk_collect ex (path_join root name) sub
                       | File _ \<Rightarrow> [])
                 [d \<leftarrow> entries. is_dir d \<and> node_name d \<notin> set ex])"
  by pat_completeness auto
termination
proof (relation "measure (\<lambda>(ex, root, listing). size_option (size_list size) listing)", goal_cases)
  case 1
  show ?case by simp
next
  case (2 ex root entries d name sub)
  then have "Dir name sub \<in> set entries" by simp
  then show ?case
    using size_sub_less by simp
qed

datatype error = SystemExit nat

text \<open>
  \<open>scan_folder_and_collect_files(folder_path)\<close>; \<open>at_path\<close> is what the file
  system holds at \<open>folder_path\<close>: nothing, a file, or a directory.
\<close>

definition scan_folder_and_collect_files ::
    "str list \<Rightarrow> str \<Rightarrow> node option \<Rightarrow> error + str list" where
  "scan_folder_and_collect_files ex folder_path at_path =
     (case at_path of
        None \<Rightarrow> Inl (SystemExit 1)
      | Some (File _) \<Rightarrow> Inl (SystemExit 1)
      | Some (Dir _ listing) \<Rightarrow> Inr (sort (walk_collect ex folder_path listing)))"

section \<open>The content extractor\<close>

definition MAX_CONTENT_PREVIEW_LINES :: nat where
  "MAX_CONTENT_PREVIEW_LINES = 50"

definition MAX_CONTENT_PREVIEW_CHARS :: nat where
  "MAX_CONTENT_PREVIEW_CHARS = 2000"

definition truncation_marker :: str where
  "truncation_marker = LF # py ''... (content truncated)''"

text \<open>
  An exception, as the handlers use it: \<open>type(e).__name__\<close> and \<open>str(e)\<close>.
\<close>

record exn =
  exn_kind :: str
  exn_detail :: str

text \<open>A paragraph of a parsed document: the name of its style, if any, and its text.\<close>

record para =
  style_name :: "str option"
  para_text :: str

text \<open>
  What the extractor reads from its surroundings: whether the import of \<open>Document\<close>
  succeeded when the module was loaded (\<open>Document is not None\<close>), the outcome of
  opening a path as UTF-8 text with \<open>errors='ignore'\<close> and reading it (the decoded
  text, or the exception raised), and the outcome of \<open>Document(filepath)\<close> (the
  paragraphs, or the exception raised).
\<close>

record env =
  docx_available :: bool
  read_text :: "str \<Rightarrow> exn + str"
  load_docx :: "str \<Rightarrow> exn + para list"

text \<open>The triple that \<open>get_file_title_and_content\<close> returns.\<close>

record extraction =
  title :: "str option"
  content_preview :: str
  content_notes :: str

text \<open>The first string of the list that is not blank, stripped.\<close>

fun first_nonblank :: "str list \<Rightarrow> str option" where
  "first_nonblank [] = None"
| "first_nonblank (l # ls) = (if strip l \<noteq> [] then Some (strip l) else first_nonblank ls)"

text \<open>The title of a text file: its first non-blank line, capped at 200 characters.\<close>

definition txt_title :: "str list \<Rightarrow> str option" where
  "txt_title lines =
     (case first_nonblank lines of
        None \<Rightarrow> None
      | Some t \<Rightarrow> Some (if length t > 200 then take 200 t @ py ''...'' else t))"

text \<open>
  The preview of the lines read from a text file; the \<open>.txt\<close> branch and the
  branch of the unknown extensions compute it with the same code.
\<close>

definition text_preview :: "str list \<Rightarrow> str" where
  "text_preview lines =
     (let full_content = concat lines in
      if length full_content > MAX_CONTENT_PREVIEW_CHARS
      then take MAX_CONTENT_PREVIEW_CHARS full_content @ truncation_marker
      else if length lines > MAX_CONTENT_PREVIEW_LINES
      then concat (take MAX_CONTENT_PREVIEW_LINES lines) @ truncation_marker
      else full_content)"

definition is_heading :: "para \<Rightarrow> bool" where
  "is_heading para =
     (case style_name para of
        None \<Rightarrow> False
      | Some name \<Rightarrow> name \<noteq> [] \<and> startswith (lower name) (py ''heading''))"

definition titles_found :: "para list \<Rightarrow> str list" where
  "titles_found paragraphs =
     map (\<lambda>para. strip (para_text para))
       [para \<leftarrow> paragraphs. is_heading para \<and> strip (para_text para) \<noteq> []]"

definition docx_title :: "para list \<Rightarrow> str option" where
  "docx_title paragraphs =
     (if titles_found paragraphs \<noteq> [] then
        (let t = join (py ''; '') (take 3 (titles_found paragraphs)) in
         Some (if length t > 200 then take 200 t @ py ''...'' else t))
      else if paragraphs \<noteq> [] then
        (case first_nonblank (map para_text paragraphs) of
           None \<Rightarrow> None
         | Some title_candidate \<Rightarrow>
             Some (if length title_candidate > 150 then take 150 title_candidate @ py ''...''
                   else title_candidate))
      else None)"

definition docx_preview :: "para list \<Rightarrow> str" where
  "docx_preview paragraphs =
     (let full_text = join [LF] (map para_text paragraphs) in
      if length full_text > MAX_CONTENT_PREVIEW_CHARS
      then take MAX_CONTENT_PREVIEW_CHARS full_text @ truncation_marker
      else if length (splitlines full_text) > MAX_CONTENT_PREVIEW_LINES
      then join [LF] (take MAX_CONTENT_PREVIEW_LINES (splitlines full_text)) @ truncation_marker
      else full_text)"

text \<open>The truth value of \<open>title\<close>: neither \<open>None\<close> nor the empty string.\<close>

definition truthy :: "str option \<Rightarrow> bool" where
  "truthy t = (case t of None \<Rightarrow> False | Some s \<Rightarrow> s \<noteq> [])"

definition docx_notes :: "str option \<Rightarrow> str \<Rightarrow> str" where
  "docx_notes t preview =
     (if strip preview = [] \<and> \<not> truthy t
      then py ''[DOCX appears empty or has no extractable text/headings]''
      else if strip preview = [] \<and> truthy t
      then py ''[DOCX has headings but no other significant body text found for preview]''
      else [])"

definition unimplemented_extensions :: "str list" where
  "unimplemented_extensions = [py ''.pdf'', py ''.xlsx'', py ''.xls'', py ''.ppt'', py ''.pptx'']"

definition binary_extensions :: "str list" where
  "binary_extensions =
     [py ''.jpg'', py ''.jpeg'', py ''.png'', py ''.gif'', py ''.bmp'', py ''.tiff'', py ''.svg'',
      py ''.exe'', py ''.dll'', py ''.app'', py ''.bin'', py ''.zip'', py ''.gz'', py ''.tar'',
      py ''.rar'', py ''.7z'', py ''.mp3'', py ''.wav'', py ''.aac'', py ''.flac'', py ''.mp4'',
      py ''.avi'', py ''.mov'', py ''.mkv'', py ''.webm'', py ''.lnk'', py ''.url'']"

text \<open>
  The branch of the unknown extensions, with its own \<open>try\<close>: a failure of the
  read is turned into a note there and does not reach the outer handler.
\<close>

definition unknown_type :: "env \<Rightarrow> str \<Rightarrow> str \<Rightarrow> extraction" where
  "unknown_type e filepath extension =
     (case read_text e filepath of
        Inl _ \<Rightarrow>
          \<lparr>title = None, content_preview = [],
           content_notes = py ''[Unknown file type ('' @ extension @
                           py ''), likely binary or not text-readable]''\<rparr>
      | Inr s \<Rightarrow>
          (let lines = readlines s in
           if lines \<noteq> [] then
             \<lparr>title = None, content_preview = text_preview lines,
              content_notes =
                (if strip (text_preview lines) \<noteq> []
                 then py ''[Attempted text extraction for unknown type '' @ extension @ py '']''
                 else py ''[Unknown file type ('' @ extension @
                      py ''), appears empty or unreadable as text]'')\<rparr>
           else
             \<lparr>title = None, content_preview = [],
              content_notes = py ''[Unknown file type ('' @ extension @
                              py ''), appears empty or unreadable as text]''\<rparr>))"

text \<open>
  The body of the outer \<open>try\<close> of \<open>get_file_title_and_content\<close>: \<open>Inl\<close> is an
  exception that leaves the body, \<open>Inr\<close> the values of \<open>title\<close>,
  \<open>content_preview\<close> and \<open>content_notes\<close> at its end.
\<close>

definition extract_body :: "env \<Rightarrow> str \<Rightarrow> exn + extraction" where
  "extract_body e filepath =
     (let extension = lower (path_suffix filepath) in
      if extension = py ''.txt'' then
        (case read_text e filepath of
           Inl err \<Rightarrow> Inl err
         | Inr s \<Rightarrow>
             (let lines = readlines s in
              if lines \<noteq> [] then
                Inr \<lparr>title = txt_title lines, content_preview = text_preview lines,
                     content_notes = []\<rparr>
              else
                Inr \<lparr>title = None, content_preview = [],
                     content_notes = py ''[Empty text file]''\<rparr>))
      else if extension = py ''.docx'' \<and> docx_available e then
        (case load_docx e filepath of
           Inl err \<Rightarrow> Inl err
         | Inr paragraphs \<Rightarrow>
             Inr \<lparr>title = docx_title paragraphs, content_preview = docx_preview paragraphs,
                  content_notes = docx_notes (docx_title paragraphs) (docx_preview paragraphs)\<rparr>)
      else if extension \<in> set unimplemented_extensions then
        Inr \<lparr>title = None, content_preview = [],
             content_notes = py ''[Content extraction for '' @ extension @
                             py '' not yet implemented, but file is present.]''\<rparr>
      else if extension \<in> set binary_extensions then
        Inr \<lparr>title = None, content_preview = [],
             content_notes = py ''[Binary, media, archive, or shortcut file ('' @ extension @
                             py ''). Content not displayed.]''\<rparr>
      else Inr (unknown_type e filepath extension))"

text \<open>
  \<open>get_file_title_and_content(filepath)\<close>: the body, and the handler of the outer
  \<open>try\<close>, which replaces the three values.
\<close>

definition get_file_title_and_content :: "env \<Rightarrow> str \<Rightarrow> extraction" where
  "get_file_title_and_content e filepath =
     (case extract_body e filepath of
        Inl err \<Rightarrow>
          \<lparr>title = None, content_preview = [],
           content_notes = py ''[ERROR processing file '' @ path_name filepath @ py '': '' @
                           exn_kind err @ py '' - '' @ exn_detail err @ py '']''\<rparr>
      | Inr r \<Rightarrow> r)"

text \<open>
  The inputs on which the plain-text code of the extractor runs: the extension is
  \<open>.txt\<close>, or it reaches the last \<open>else\<close> of the dispatch.
\<close>

definition text_branch :: "env \<Rightarrow> str \<Rightarrow> bool" where
  "text_branch e filepath \<longleftrightarrow>
     (let extension = lower (path_suffix filepath) in
      extension = py ''.txt'' \<or>
      (\<not> (extension = py ''.docx'' \<and> docx_available e) \<and>
       extension \<notin> set unimplemented_extensions \<and>
       extension \<notin> set binary_extensions))"

section \<open>Example inputs\<close>

definition permission_error :: exn where
  "permission_error = \<lparr>exn_kind = py ''PermissionError'', exn_detail = py ''[Errno 13] Permission denied''\<rparr>"

definition example_read :: "str \<Rightarrow> exn + str" where
  "example_read p =
     (if p = py ''/r/empty.txt'' then Inr []
      else if p = py ''/r/a.txt'' then Inr (py ''Hello'' @ [LF] @ py ''World'')
      else if p = py ''/r/long.txt'' then Inr (concat (replicate 51 (py ''a'' @ [LF])))
      else if p = py ''/r/d.docx'' then Inr (py ''PK'')
      else Inl permission_error)"

definition example_docx :: "str \<Rightarrow> exn + para list" where
  "example_docx p =
     (if p = py ''/r/d.docx''
      then Inr [\<lparr>style_name = None, para_text = []\<rparr>,
                \<lparr>style_name = Some (py ''Normal''), para_text = py '' Intro ''\<rparr>]
      else Inl permission_error)"

definition example_env :: env where
  "example_env = \<lparr>docx_available = True, read_text = example_read, load_docx = example_docx\<rparr>"

definition no_docx_env :: env where
  "no_docx_env = example_env\<lparr>docx_available := False\<rparr>"

section \<open>Evaluation\<close>

text \<open>The definitions that the simplifier unfolds to evaluate the model on an example.\<close>

lemmas path_eval = path_suffix_def path_name_def path_parts_def lower_def lower_char_def
  SLASH_def DOT_def LF_def CR_def Let_def

lemmas env_eval = example_env_def example_read_def example_docx_def permission_error_def
  no_docx_env_def

lemmas extract_eval = get_file_title_and_content_def extract_body_def unknown_type_def
  text_preview_def txt_title_def docx_title_def docx_preview_def docx_notes_def truthy_def
  titles_found_def is_heading_def startswith_def strip_def is_space_def readlines_def
  splitlines_def is_linebreak_def unimplemented_extensions_def binary_extensions_def
  MAX_CONTENT_PREVIEW_CHARS_def MAX_CONTENT_PREVIEW_LINES_def truncation_marker_def
  text_branch_def

section \<open>Properties of the content extractor\<close>

lemma concat_readlines_from: "concat (readlines_from cur s) = cur @ s"
  by (induction s arbitrary: cur) auto

lemma concat_readlines: "concat (readlines s) = s"
  by (simp add: readlines_def concat_readlines_from)

lemma length_concat_take: "length (concat (take n xs)) \<le> length (concat xs)"
proof -
  have "concat xs = concat (take n xs) @ concat (drop n xs)"
    by (metis append_take_drop_id concat_append)
  then show ?thesis by simp
qed

lemma text_preview_length:
  "length (text_preview lines) \<le> MAX_CONTENT_PREVIEW_CHARS + length truncation_marker"
proof -
  have "length (concat (take MAX_CONTENT_PREVIEW_LINES lines)) \<le> length (concat lines)"
    by (rule length_concat_take)
  then show ?thesis
    by (auto simp: text_preview_def Let_def)
qed

lemma text_preview_exact:
  "length (concat lines) \<le> MAX_CONTENT_PREVIEW_CHARS \<Longrightarrow> length lines \<le> MAX_CONTENT_PREVIEW_LINES \<Longrightarrow>
   text_preview lines = concat lines"
  by (simp add: text_preview_def Let_def)

lemma readlines_Nil: "readlines s = [] \<Longrightarrow> s = []"
  using concat_readlines [of s] by simp

lemma text_branch_preview:
  assumes "text_branch e filepath" and "read_text e filepath = Inr s"
  shows "content_preview (get_file_title_and_content e filepath) =
           (if readlines s \<noteq> [] then text_preview (readlines s) else [])"
  using assms
  by (auto simp: text_branch_def get_file_title_and_content_def extract_body_def
      unknown_type_def Let_def)

text \<open>
  Claim C3. On the plain-text code (the \<open>.txt\<close> branch and the branch of the unknown
  extensions), for every text \<open>s\<close> read from the file, the preview is at most
  \<open>MAX_CONTENT_PREVIEW_CHARS\<close> plus the length of the truncation marker long; and
  when \<open>s\<close> exceeds neither the character cap nor the line cap, the preview is
  \<open>s\<close> itself.
\<close>

theorem text_preview_bounded_and_exact:
  assumes "text_branch e filepath" and "read_text e filepath = Inr s"
  shows "length (content_preview (get_file_title_and_content e filepath))
           \<le> MAX_CONTENT_PREVIEW_CHARS + length truncation_marker \<and>
         (length s \<le> MAX_CONTENT_PREVIEW_CHARS \<and>
          length (readlines s) \<le> MAX_CONTENT_PREVIEW_LINES \<longrightarrow>
          content_preview (get_file_title_and_content e filepath) = s)"
proof (cases "readlines s = []")
  case True
  then show ?thesis
    using text_branch_preview [OF assms] readlines_Nil [OF True] by simp
next
  case False
  then have p: "content_preview (get_file_title_and_content e filepath) = text_preview (readlines s)"
    using text_branch_preview [OF assms] by simp
  show ?thesis
    unfolding p using text_preview_length text_preview_exact [of "readlines s"]
    by (simp add: concat_readlines)
qed

theorem text_preview_bounded_and_exact_witness:
  "text_branch example_env (py ''/r/a.txt'') \<and>
   read_text example_env (py ''/r/a.txt'') = Inr (py ''Hello'' @ [LF] @ py ''World'') \<and>
   length (content_preview (get_file_title_and_content example_env (py ''/r/a.txt'')))
     \<le> MAX_CONTENT_PREVIEW_CHARS + length truncation_marker \<and>
   content_preview (get_file_title_and_content example_env (py ''/r/a.txt'')) =
     py ''Hello'' @ [LF] @ py ''World''"
proof -
  have h1: "text_branch example_env (py ''/r/a.txt'')"
    by (simp add: path_eval extract_eval env_eval)
  have h2: "read_text example_env (py ''/r/a.txt'') = Inr (py ''Hello'' @ [LF] @ py ''World'')"
    by (simp add: example_env_def example_read_def)
  have h3: "length (py ''Hello'' @ [LF] @ py ''World'') \<le> MAX_CONTENT_PREVIEW_CHARS \<and>
            length (readlines (py ''Hello'' @ [LF] @ py ''World'')) \<le> MAX_CONTENT_PREVIEW_LINES"
    by (simp add: path_eval extract_eval env_eval)
  show ?thesis
    using h1 h2 h3 text_preview_bounded_and_exact [OF h1 h2] by blast
qed

lemma txt_title_length: "txt_title lines = Some t \<Longrightarrow> length t \<le> 203"
  by (auto simp: txt_title_def split: option.splits if_splits)

lemma docx_title_length: "docx_title ps = Some t \<Longrightarrow> length t \<le> 203"
  by (auto simp: docx_title_def Let_def split: option.splits if_splits)

lemma docx_title_fallback_length:
  "titles_found ps = [] \<Longrightarrow> docx_title ps = Some t \<Longrightarrow> length t \<le> 153"
  by (auto simp: docx_title_def Let_def split: option.splits if_splits)

lemma unknown_type_title: "title (unknown_type e filepath extension) = None"
  by (simp add: unknown_type_def Let_def split: sum.splits)

text \<open>
  Claim C10. Whatever the path and the branch taken, a title that is returned (not
  \<open>None\<close>) has at most 203 characters; when it comes from the first non-blank
  paragraph of a document without headings, it has at most 153.
\<close>

theorem title_length_bounded:
  assumes "title (get_file_title_and_content e filepath) = Some t"
  shows "length t \<le> 203 \<and>
         (\<forall>ps. lower (path_suffix filepath) = py ''.docx'' \<and> docx_available e \<and>
               load_docx e filepath = Inr ps \<and> titles_found ps = [] \<longrightarrow> length t \<le> 153)"
proof -
  have a: "length t \<le> 203"
    using assms txt_title_length docx_title_length
    by (auto simp: get_file_title_and_content_def extract_body_def Let_def unknown_type_title
        split: sum.splits if_splits)
  have b: "length t \<le> 153"
    if "lower (path_suffix filepath) = py ''.docx''" "docx_available e"
       "load_docx e filepath = Inr ps" "titles_found ps = []" for ps
  proof -
    have "title (get_file_title_and_content e filepath) = docx_title ps"
      using that by (simp add: get_file_title_and_content_def extract_body_def Let_def)
    then show ?thesis
      using assms that(4) docx_title_fallback_length by simp
  qed
  show ?thesis using a b by blast
qed


theorem title_length_bounded_witness:
  "title (get_file_title_and_content example_env (py ''/r/d.docx'')) = Some (py ''Intro'') \<and>
   lower (path_suffix (py ''/r/d.docx'')) = py ''.docx'' \<and> docx_available example_env \<and>
   load_docx example_env (py ''/r/d.docx'') =
     Inr [\<lparr>style_name = None, para_text = []\<rparr>,
          \<lparr>style_name = Some (py ''Normal''), para_text = py '' Intro ''\<rparr>] \<and>
   titles_found [\<lparr>style_name = None, para_text = []\<rparr>,
                 \<lparr>style_name = Some (py ''Normal''), para_text = py '' Intro ''\<rparr>] = [] \<and>
   length (py ''Intro'') \<le> 203 \<and> length (py ''Intro'') \<le> 153"
proof -
  have h1: "title (get_file_title_and_content example_env (py ''/r/d.docx'')) = Some (py ''Intro'')"
    by (simp add: path_eval extract_eval env_eval)
  have h2: "lower (path_suffix (py ''/r/d.docx'')) = py ''.docx''"
    by (simp add: path_eval extract_eval env_eval)
  have h3: "docx_available example_env"
    by (simp add: example_env_def)
  have h4: "load_docx example_env (py ''/r/d.docx'') =
     Inr [\<lparr>style_name = None, para_text = []\<rparr>,
          \<lparr>style_name = Some (py ''Normal''), para_text = py '' Intro ''\<rparr>]"
    by (simp add: example_env_def example_docx_def)
  have h5: "titles_found [\<lparr>style_name = None, para_text = []\<rparr>,
                 \<lparr>style_name = Some (py ''Normal''), para_text = py '' Intro ''\<rparr>] = []"
    by (simp add: path_eval extract_eval env_eval)
  show ?thesis
    using h1 h2 h3 h4 h5 title_length_bounded [OF h1] by blast
qed

text \<open>
  Claim C8. An empty file with the extension \<open>.txt\<close> gives no title, the empty
  preview and the note \<open>[Empty text file]\<close>.
\<close>

theorem empty_txt_file:
  assumes "lower (path_suffix filepath) = py ''.txt''" and "read_text e filepath = Inr []"
  shows "get_file_title_and_content e filepath =
           \<lparr>title = None, content_preview = [], content_notes = py ''[Empty text file]''\<rparr>"
  using assms by (simp add: get_file_title_and_content_def extract_body_def readlines_def)

theorem empty_txt_file_witness:
  "lower (path_suffix (py ''/r/empty.txt'')) = py ''.txt'' \<and>
   read_text example_env (py ''/r/empty.txt'') = Inr [] \<and>
   get_file_title_and_content example_env (py ''/r/empty.txt'') =
     \<lparr>title = None, content_preview = [], content_notes = py ''[Empty text file]''\<rparr>"
proof -
  have h1: "lower (path_suffix (py ''/r/empty.txt'')) = py ''.txt''"
    by (simp add: path_eval extract_eval env_eval)
  have h2: "read_text example_env (py ''/r/empty.txt'') = Inr []"
    by (simp add: example_env_def example_read_def)
  show ?thesis
    using h1 h2 empty_txt_file [OF h1 h2] by simp
qed

text \<open>
  Claim C5, as stated, fails: a failure while reading a file of unknown extension is
  caught by the inner handler of that branch, and the note is not the
  \<open>ERROR processing file\<close> note.
\<close>

theorem failure_note_counterexample:
  "read_text example_env (py ''/r/x.dat'') = Inl permission_error \<and>
   content_notes (get_file_title_and_content example_env (py ''/r/x.dat'')) =
     py ''[Unknown file type (.dat), likely binary or not text-readable]'' \<and>
   content_notes (get_file_title_and_content example_env (py ''/r/x.dat'')) \<noteq>
     py ''[ERROR processing file x.dat: PermissionError - [Errno 13] Permission denied]''"
  by (simp add: path_eval extract_eval env_eval)

text \<open>
  Claim C5, amended. The extractor returns its three values for every path. A failure
  while reading a \<open>.txt\<close> file, or while parsing a \<open>.docx\<close> file when the parser is
  available, gives the note \<open>[ERROR processing file <name>: <kind> - <detail>]\<close>; a
  failure while reading a file of unknown extension gives the note
  \<open>[Unknown file type (<ext>), likely binary or not text-readable]\<close>; in both cases
  the title is \<open>None\<close> and the preview is empty.
\<close>

theorem failures_become_notes:
  "(lower (path_suffix filepath) = py ''.txt'' \<and> read_text e filepath = Inl err \<longrightarrow>
      get_file_title_and_content e filepath =
        \<lparr>title = None, content_preview = [],
         content_notes = py ''[ERROR processing file '' @ path_name filepath @ py '': '' @
                         exn_kind err @ py '' - '' @ exn_detail err @ py '']''\<rparr>) \<and>
   (lower (path_suffix filepath) = py ''.docx'' \<and> docx_available e \<and>
    load_docx e filepath = Inl err \<longrightarrow>
      get_file_title_and_content e filepath =
        \<lparr>title = None, content_preview = [],
         content_notes = py ''[ERROR processing file '' @ path_name filepath @ py '': '' @
                         exn_kind err @ py '' - '' @ exn_detail err @ py '']''\<rparr>) \<and>
   (lower (path_suffix filepath) \<noteq> py ''.txt'' \<and>
    \<not> (lower (path_suffix filepath) = py ''.docx'' \<and> docx_available e) \<and>
    lower (path_suffix filepath) \<notin> set unimplemented_extensions \<and>
    lower (path_suffix filepath) \<notin> set binary_extensions \<and>
    read_text e filepath = Inl err \<longrightarrow>
      get_file_title_and_content e filepath =
        \<lparr>title = None, content_preview = [],
         content_notes = py ''[Unknown file type ('' @ lower (path_suffix filepath) @
                         py ''), likely binary or not text-readable]''\<rparr>)"
  by (simp add: get_file_title_and_content_def extract_body_def Let_def unknown_type_def)

theorem failures_become_notes_witness:
  "get_file_title_and_content example_env (py ''/r/bad.txt'') =
     \<lparr>title = None, content_preview = [],
      content_notes =
        py ''[ERROR processing file bad.txt: PermissionError - [Errno 13] Permission denied]''\<rparr> \<and>
   get_file_title_and_content example_env (py ''/r/bad.docx'') =
     \<lparr>title = None, content_preview = [],
      content_notes =
        py ''[ERROR processing file bad.docx: PermissionError - [Errno 13] Permission denied]''\<rparr> \<and>
   get_file_title_and_content example_env (py ''/r/x.dat'') =
     \<lparr>title = None, content_preview = [],
      content_notes = py ''[Unknown file type (.dat), likely binary or not text-readable]''\<rparr>"
proof -
  have t1: "lower (path_suffix (py ''/r/bad.txt'')) = py ''.txt''" by (simp add: path_eval extract_eval env_eval)
  have t2: "read_text example_env (py ''/r/bad.txt'') = Inl permission_error"
    by (simp add: example_env_def example_read_def)
  have d1: "lower (path_suffix (py ''/r/bad.docx'')) = py ''.docx''" by (simp add: path_eval extract_eval env_eval)
  have d2: "docx_available example_env" by (simp add: example_env_def)
  have d3: "load_docx example_env (py ''/r/bad.docx'') = Inl permission_error"
    by (simp add: example_env_def example_docx_def)
  have u1: "lower (path_suffix (py ''/r/x.dat'')) = py ''.dat''" by (simp add: path_eval extract_eval env_eval)
  have u2: "py ''.dat'' \<notin> set unimplemented_extensions" by (simp add: path_eval extract_eval env_eval)
  have u3: "py ''.dat'' \<notin> set binary_extensions" by (simp add: path_eval extract_eval env_eval)
  have u4: "read_text example_env (py ''/r/x.dat'') = Inl permission_error"
    by (simp add: example_env_def example_read_def)
  have n1: "path_name (py ''/r/bad.txt'') = py ''bad.txt''" by (simp add: path_eval extract_eval env_eval)
  have n2: "path_name (py ''/r/bad.docx'') = py ''bad.docx''" by (simp add: path_eval extract_eval env_eval)
  have a: "get_file_title_and_content example_env (py ''/r/bad.txt'') =
     \<lparr>title = None, content_preview = [],
      content_notes =
        py ''[ERROR processing file bad.txt: PermissionError - [Errno 13] Permission denied]''\<rparr>"
    using failures_become_notes [of "py ''/r/bad.txt''" example_env permission_error] t1 t2 n1
    by (simp add: permission_error_def)
  have b: "get_file_title_and_content example_env (py ''/r/bad.docx'') =
     \<lparr>title = None, content_preview = [],
      content_notes =
        py ''[ERROR processing file bad.docx: PermissionError - [Errno 13] Permission denied]''\<rparr>"
    using failures_become_notes [of "py ''/r/bad.docx''" example_env permission_error] d1 d2 d3 n2
    by (simp add: permission_error_def)
  have c: "get_file_title_and_content example_env (py ''/r/x.dat'') =
     \<lparr>title = None, content_preview = [],
      content_notes = py ''[Unknown file type (.dat), likely binary or not text-readable]''\<rparr>"
    using failures_become_notes [of "py ''/r/x.dat''" example_env permission_error] u1 u2 u3 u4 d2
    by simp
  show ?thesis using a b c by simp
qed

end
